theory Spec2Isabelle
  imports Complex_Main
begin

section \<open>JavaScript values\<close>

text \<open>
  The numbers that \<^verbatim>\<open>Model.js\<close> handles are JavaScript numbers, and a read outside an
  array yields \<^verbatim>\<open>undefined\<close>. Finite numbers are represented by reals (the two zeros are
  one value, infinities do not occur). \<^verbatim>\<open>NaN\<close> is kept as a value of its own, because the
  two comparisons of the source, \<^verbatim>\<open>!==\<close> and \<^verbatim>\<open>>=\<close>, treat it specially and because
  arithmetic on \<^verbatim>\<open>undefined\<close> produces it.

  The arithmetic of the source is that of double precision: an operation yields its exact
  result, rounded. The rounding is a parameter, \<open>round64\<close>, as is the rounding \<open>fround\<close>
  of a store to a Float32Array.
\<close>

datatype jsval = JUndefined | JNaN | JNum real

text \<open>
  The operators \<^verbatim>\<open>-\<close> and \<^verbatim>\<open>*\<close> of the source, on numbers and \<^verbatim>\<open>undefined\<close>, which converts
  to the number \<^verbatim>\<open>NaN\<close>: the exact result, rounded to double precision.
\<close>

fun js_minus :: "(real \<Rightarrow> real) \<Rightarrow> jsval \<Rightarrow> jsval \<Rightarrow> jsval" where
  "js_minus round64 (JNum a) (JNum b) = JNum (round64 (a - b))"
| "js_minus round64 _ _ = JNaN"

fun js_times :: "(real \<Rightarrow> real) \<Rightarrow> jsval \<Rightarrow> jsval \<Rightarrow> jsval" where
  "js_times round64 (JNum a) (JNum b) = JNum (round64 (a * b))"
| "js_times round64 _ _ = JNaN"

text \<open>
  The operators \<open>+\<close>, \<open>-\<close> and \<open>*\<close> without rounding. They are the arithmetic of the
  matrices, which are modelled from the spec and not from a source.
\<close>

fun js_add :: "jsval \<Rightarrow> jsval \<Rightarrow> jsval" where
  "js_add (JNum a) (JNum b) = JNum (a + b)"
| "js_add _ _ = JNaN"

fun js_sub :: "jsval \<Rightarrow> jsval \<Rightarrow> jsval" where
  "js_sub (JNum a) (JNum b) = JNum (a - b)"
| "js_sub _ _ = JNaN"

fun js_mul :: "jsval \<Rightarrow> jsval \<Rightarrow> jsval" where
  "js_mul (JNum a) (JNum b) = JNum (a * b)"
| "js_mul _ _ = JNaN"

text \<open>These three are written \<open>+\<close>, \<open>-\<close> and \<open>*\<close> on \<open>jsval\<close> below.\<close>

instantiation jsval :: "{plus, minus, times}"
begin

definition plus_jsval :: "jsval \<Rightarrow> jsval \<Rightarrow> jsval" where
  "plus_jsval a b = js_add a b"

definition minus_jsval :: "jsval \<Rightarrow> jsval \<Rightarrow> jsval" where
  "minus_jsval a b = js_sub a b"

definition times_jsval :: "jsval \<Rightarrow> jsval \<Rightarrow> jsval" where
  "times_jsval a b = js_mul a b"

instance ..

end

text \<open>\<^verbatim>\<open>a >= b\<close>: false as soon as an operand is \<^verbatim>\<open>NaN\<close> or \<^verbatim>\<open>undefined\<close>.\<close>

fun js_ge :: "jsval \<Rightarrow> jsval \<Rightarrow> bool" where
  "js_ge (JNum a) (JNum b) = (b \<le> a)"
| "js_ge _ _ = False"

text \<open>\<^verbatim>\<open>a !== b\<close>: \<^verbatim>\<open>NaN\<close> is strictly unequal to everything, itself included.\<close>

fun js_sne :: "jsval \<Rightarrow> jsval \<Rightarrow> bool" where
  "js_sne JUndefined JUndefined = False"
| "js_sne (JNum a) (JNum b) = (a \<noteq> b)"
| "js_sne _ _ = True"

subsection \<open>Ordinary arrays\<close>

text \<open>
  A read outside the array is \<^verbatim>\<open>undefined\<close>; a write outside it extends the array, the slots
  in between being holes that read as \<^verbatim>\<open>undefined\<close>.
\<close>

definition js_get :: "jsval list \<Rightarrow> nat \<Rightarrow> jsval" where
  "js_get xs i = (if i < length xs then xs ! i else JUndefined)"

definition js_set :: "jsval list \<Rightarrow> nat \<Rightarrow> jsval \<Rightarrow> jsval list" where
  "js_set xs i v =
     (if i < length xs then xs[i := v]
      else xs @ replicate (i - length xs) JUndefined @ [v])"

subsection \<open>Float32Array\<close>

text \<open>
  A typed array has a fixed length. A read outside it is \<^verbatim>\<open>undefined\<close>, a write outside it
  is discarded. A write inside it converts the value to a number and rounds it to single
  precision; the rounding of finite numbers is the parameter \<open>fround\<close>.
\<close>

fun toF32 :: "(real \<Rightarrow> real) \<Rightarrow> jsval \<Rightarrow> jsval" where
  "toF32 fround (JNum a) = JNum (fround a)"
| "toF32 fround _ = JNaN"

definition f32_get :: "jsval list \<Rightarrow> int \<Rightarrow> jsval" where
  "f32_get buf i = (if 0 \<le> i \<and> i < int (length buf) then buf ! nat i else JUndefined)"

definition f32_set :: "(real \<Rightarrow> real) \<Rightarrow> jsval list \<Rightarrow> int \<Rightarrow> jsval \<Rightarrow> jsval list" where
  "f32_set fround buf i v =
     (if 0 \<le> i \<and> i < int (length buf) then buf[nat i := toF32 fround v] else buf)"

text \<open>A value is a single-precision value when storing it does not change it.\<close>

definition is_float32 :: "(real \<Rightarrow> real) \<Rightarrow> jsval \<Rightarrow> bool" where
  "is_float32 fround v = (toF32 fround v = v)"

section \<open>The collaborators of the Model\<close>

text \<open>
  The classes Vector3 and Quaternion are not part of the sources. A vector is its three
  components and a quaternion its four. What the constructors of the two classes store is
  not part of the sources either, and the spec does not say it: the constructor of the
  Model below takes the constructor of Vector3 and the value of \<^verbatim>\<open>new Quaternion()\<close> as
  parameters.
\<close>

record Vector3 =
  vec_x :: jsval
  vec_y :: jsval
  vec_z :: jsval

record Quaternion =
  quat_x :: jsval
  quat_y :: jsval
  quat_z :: jsval
  quat_w :: jsval

text \<open>The vector with the components \<open>a\<close>, \<open>b\<close> and \<open>c\<close>, and the identity rotation.\<close>

definition vec3 :: "jsval \<Rightarrow> jsval \<Rightarrow> jsval \<Rightarrow> Vector3" where
  "vec3 a b c = \<lparr>vec_x = a, vec_y = b, vec_z = c\<rparr>"

definition Quaternion_identity :: Quaternion where
  "Quaternion_identity =
     \<lparr>quat_x = JNum 0, quat_y = JNum 0, quat_z = JNum 0, quat_w = JNum 1\<rparr>"

text \<open>
  One instance of the two parameters, for the concrete Models of this theory: the
  constructors of the math classes of the library, which store 0 for a component that is
  missing or falsy (\<^verbatim>\<open>x || 0\<close>, the falsy values being \<^verbatim>\<open>undefined\<close>, \<^verbatim>\<open>NaN\<close> and 0).
  Without arguments the constructor of Quaternion yields (0,0,0,0).
\<close>

fun or_zero :: "jsval \<Rightarrow> jsval" where
  "or_zero (JNum a) = JNum a"
| "or_zero _ = JNum 0"

definition Vector3_or_zero :: "jsval \<Rightarrow> jsval \<Rightarrow> jsval \<Rightarrow> Vector3" where
  "Vector3_or_zero a b c = vec3 (or_zero a) (or_zero b) (or_zero c)"

definition Quaternion_zero :: Quaternion where
  "Quaternion_zero =
     \<lparr>quat_x = or_zero JUndefined, quat_y = or_zero JUndefined,
      quat_z = or_zero JUndefined, quat_w = or_zero JUndefined\<rparr>"

text \<open>
  Modelled from the spec: the class Matrix4 is not part of the sources. A matrix is its
  sixteen entries, column after column, the translation in the last column; a new matrix
  is the identity.
\<close>

datatype Matrix4 =
  Matrix4 jsval jsval jsval jsval  jsval jsval jsval jsval
          jsval jsval jsval jsval  jsval jsval jsval jsval

text \<open>Modelled from the spec: \<^verbatim>\<open>new Matrix4()\<close>, not part of the sources, is the identity matrix.\<close>

definition Matrix4_new :: Matrix4 where
  "Matrix4_new =
     Matrix4 (JNum 1) (JNum 0) (JNum 0) (JNum 0)
             (JNum 0) (JNum 1) (JNum 0) (JNum 0)
             (JNum 0) (JNum 0) (JNum 1) (JNum 0)
             (JNum 0) (JNum 0) (JNum 0) (JNum 1)"

text \<open>
  The classes Vertex and Face, instantiated by \<^verbatim>\<open>addVertices\<close>, are not part of the sources
  either. An instance is represented by the arguments of its constructor call:
  \<^verbatim>\<open>new Vertex(x, y, z, u, v, color, alpha)\<close> and \<^verbatim>\<open>new Face(vert1, vert2, vert3)\<close>, where an
  argument of \<^verbatim>\<open>Face\<close> read outside the array is \<^verbatim>\<open>undefined\<close> (\<open>None\<close>).
\<close>

datatype VertexObj = Vertex jsval jsval jsval jsval jsval jsval jsval

datatype FaceObj = Face "VertexObj option" "VertexObj option" "VertexObj option"

section \<open>The Model\<close>

text \<open>
  The state of a Model: the properties that the constructor creates and that the methods
  below read or write. \<^verbatim>\<open>vertexData\<close> is the storage behind \<^verbatim>\<open>vertexViewF32\<close> and has no
  state of its own. The scene, the texture, the animation state and the material colours
  belong to collaborators and are not touched by the geometry and transform methods.

  \<^verbatim>\<open>addVertices\<close> reads the properties \<^verbatim>\<open>vertices\<close> and \<^verbatim>\<open>faces\<close>. The constructor does not
  create them, and the mixins (alpha, size, texture, visibility) do not either, so they are
  \<^verbatim>\<open>undefined\<close> (\<open>None\<close>) unless something outside the class assigns them.
\<close>

record model =
  vertexSize :: nat
  vertexCount :: nat
  vertexViewF32 :: "jsval list"
  position :: Vector3
  scale :: Vector3
  rotation :: Quaternion
  dirtyCache :: "jsval list"
  normalMatrix :: Matrix4
  transformMatrix :: Matrix4
  vertices :: "VertexObj list option"
  faces :: "FaceObj list option"

text \<open>A parameter of the constructor that is \<^verbatim>\<open>undefined\<close> becomes 0.\<close>

definition default0 :: "jsval \<Rightarrow> jsval" where
  "default0 a = (if a = JUndefined then JNum 0 else a)"

text \<open>
  The constructor \<^verbatim>\<open>Model (mesh, verticesCount, texture, frame, x, y, z)\<close>, with the
  constructor of Vector3 and the value of \<^verbatim>\<open>new Quaternion()\<close> as its first two parameters.
  A new ArrayBuffer is filled with zeros; the view has \<open>verticesCount * 32 / 4\<close> elements.
\<close>

definition Model ::
  "(jsval \<Rightarrow> jsval \<Rightarrow> jsval \<Rightarrow> Vector3) \<Rightarrow> Quaternion \<Rightarrow> nat \<Rightarrow> jsval \<Rightarrow> jsval \<Rightarrow> jsval
    \<Rightarrow> model" where
  "Model newVector3 newQuaternion verticesCount x0 y0 z0 =
     (let x = default0 x0;
          y = default0 y0;
          z = default0 z0
      in \<lparr>vertexSize = 32,
          vertexCount = 0,
          vertexViewF32 = replicate (verticesCount * 32 div 4) (JNum 0),
          position = newVector3 x y z,
          scale = newVector3 (JNum 1) (JNum 1) (JNum 1),
          rotation = newQuaternion,
          dirtyCache = [x, y, z, JNum 0, JNum 0, JNum 0, JNum 1, JNum 1, JNum 1, JNum 1, JNum 0],
          normalMatrix = Matrix4_new,
          transformMatrix = Matrix4_new,
          vertices = None,
          faces = None\<rparr>)"

text \<open>The constructor with the instance above of its two parameters.\<close>

definition Model_or_zero :: "nat \<Rightarrow> jsval \<Rightarrow> jsval \<Rightarrow> jsval \<Rightarrow> model" where
  "Model_or_zero verticesCount x0 y0 z0 =
     Model Vector3_or_zero Quaternion_zero verticesCount x0 y0 z0"

text \<open>The number of vertices that the buffer of a Model has room for.\<close>

definition capacity :: "model \<Rightarrow> nat" where
  "capacity m = length (vertexViewF32 m) div 8"

subsection \<open>Reading vertices and faces\<close>

definition getFaceCount :: "model \<Rightarrow> jsval" where
  "getFaceCount m = JNum (real (vertexCount m) / 3)"

text \<open>The object literal that \<^verbatim>\<open>getVertex\<close> returns.\<close>

record vertex =
  vertex_x :: jsval
  vertex_y :: jsval
  vertex_z :: jsval
  vertex_u :: jsval
  vertex_v :: jsval
  normalX :: jsval
  normalY :: jsval
  normalZ :: jsval
  alpha :: jsval

definition getVertex :: "model \<Rightarrow> nat \<Rightarrow> vertex" where
  "getVertex m index =
     (let buf = vertexViewF32 m;
          vertexOffset = int index * 8 - 1;
          vertexOffset = vertexOffset + 1; x = f32_get buf vertexOffset;
          vertexOffset = vertexOffset + 1; y = f32_get buf vertexOffset;
          vertexOffset = vertexOffset + 1; z = f32_get buf vertexOffset;
          vertexOffset = vertexOffset + 1; nx = f32_get buf vertexOffset;
          vertexOffset = vertexOffset + 1; ny = f32_get buf vertexOffset;
          vertexOffset = vertexOffset + 1; nz = f32_get buf vertexOffset;
          vertexOffset = vertexOffset + 1; u = f32_get buf vertexOffset;
          vertexOffset = vertexOffset + 1; v = f32_get buf vertexOffset
      in \<lparr>vertex_x = x, vertex_y = y, vertex_z = z, vertex_u = u, vertex_v = v,
          normalX = nx, normalY = ny, normalZ = nz, alpha = JNum 1\<rparr>)"

text \<open>
  The object literal that \<^verbatim>\<open>getFace\<close> returns. Its property \<^verbatim>\<open>vertex3\<close> is written as the
  number literal \<^verbatim>\<open>3\<close> in the source, so the type of that property has to hold a vertex or
  a number.
\<close>

datatype face_slot = SlotVertex vertex | SlotNumber real

record face =
  vertex1 :: vertex
  vertex2 :: vertex
  vertex3 :: face_slot
  isCounterClockwise :: bool

definition getFace :: "(real \<Rightarrow> real) \<Rightarrow> model \<Rightarrow> nat \<Rightarrow> face" where
  "getFace round64 m index =
     (let offset = index * 3;
          v1 = getVertex m offset;
          v2 = getVertex m (offset + 1);
          v3 = getVertex m (offset + 2);
          ccw = js_ge
                 (js_minus round64
                    (js_times round64
                       (js_minus round64 (vertex_x v2) (vertex_x v1))
                       (js_minus round64 (vertex_y v3) (vertex_y v1)))
                    (js_times round64
                       (js_minus round64 (vertex_y v2) (vertex_y v1))
                       (js_minus round64 (vertex_x v3) (vertex_x v1))))
                 (JNum 0)
      in \<lparr>vertex1 = v1, vertex2 = v2, vertex3 = SlotNumber 3, isCounterClockwise = ccw\<rparr>)"

text \<open>
  The winding test in the words of the spec: the cross product of the edges from the first
  vertex to the second and to the third, projected onto x and y, in the arithmetic of the
  source.
\<close>

definition cross2d :: "(real \<Rightarrow> real) \<Rightarrow> vertex \<Rightarrow> vertex \<Rightarrow> vertex \<Rightarrow> jsval" where
  "cross2d round64 v1 v2 v3 =
     js_minus round64
       (js_times round64
          (js_minus round64 (vertex_x v2) (vertex_x v1))
          (js_minus round64 (vertex_y v3) (vertex_y v1)))
       (js_times round64
          (js_minus round64 (vertex_y v2) (vertex_y v1))
          (js_minus round64 (vertex_x v3) (vertex_x v1)))"

subsection \<open>Appending one vertex\<close>

definition addVertex ::
  "(real \<Rightarrow> real) \<Rightarrow> model \<Rightarrow> jsval \<Rightarrow> jsval \<Rightarrow> jsval \<Rightarrow> jsval \<Rightarrow> jsval \<Rightarrow> jsval \<Rightarrow> jsval \<Rightarrow> jsval
    \<Rightarrow> model" where
  "addVertex fround m x y z u v nx ny nz =
     (let buf = vertexViewF32 m;
          vertexOffset = int (vertexCount m) * 8 - 1;
          vertexOffset = vertexOffset + 1; buf = f32_set fround buf vertexOffset x;
          vertexOffset = vertexOffset + 1; buf = f32_set fround buf vertexOffset y;
          vertexOffset = vertexOffset + 1; buf = f32_set fround buf vertexOffset z;
          vertexOffset = vertexOffset + 1; buf = f32_set fround buf vertexOffset nx;
          vertexOffset = vertexOffset + 1; buf = f32_set fround buf vertexOffset ny;
          vertexOffset = vertexOffset + 1; buf = f32_set fround buf vertexOffset nz;
          vertexOffset = vertexOffset + 1; buf = f32_set fround buf vertexOffset u;
          vertexOffset = vertexOffset + 1; buf = f32_set fround buf vertexOffset v
      in m\<lparr>vertexViewF32 := buf, vertexCount := vertexCount m + 1\<rparr>)"

text \<open>
  A Model with room for three vertices that holds one triangle in the plane: the vertices
  \<open>(x1, y1)\<close>, \<open>(x2, y2)\<close> and \<open>(x3, y3)\<close>, appended in this order, their other
  attributes being zero.
\<close>

definition triangle :: "(real \<Rightarrow> real) \<Rightarrow> real \<Rightarrow> real \<Rightarrow> real \<Rightarrow> real \<Rightarrow> real \<Rightarrow> real \<Rightarrow> model" where
  "triangle fround x1 y1 x2 y2 x3 y3 =
     (let z = JNum 0;
          m = Model_or_zero 3 JUndefined JUndefined JUndefined;
          m = addVertex fround m (JNum x1) (JNum y1) z z z z z z;
          m = addVertex fround m (JNum x2) (JNum y2) z z z z z z;
          m = addVertex fround m (JNum x3) (JNum y3) z z z z z z
      in m)"

subsection \<open>The accessors of the position and the scale\<close>

text \<open>The setters \<^verbatim>\<open>x\<close>, \<^verbatim>\<open>y\<close>, \<^verbatim>\<open>z\<close>, \<^verbatim>\<open>scaleX\<close>, \<^verbatim>\<open>scaleY\<close> and \<^verbatim>\<open>scaleZ\<close> write one component.\<close>

definition set_x :: "model \<Rightarrow> jsval \<Rightarrow> model" where
  "set_x m a = m\<lparr>position := (position m)\<lparr>vec_x := a\<rparr>\<rparr>"

definition set_y :: "model \<Rightarrow> jsval \<Rightarrow> model" where
  "set_y m a = m\<lparr>position := (position m)\<lparr>vec_y := a\<rparr>\<rparr>"

definition set_z :: "model \<Rightarrow> jsval \<Rightarrow> model" where
  "set_z m a = m\<lparr>position := (position m)\<lparr>vec_z := a\<rparr>\<rparr>"

definition set_scaleX :: "model \<Rightarrow> jsval \<Rightarrow> model" where
  "set_scaleX m a = m\<lparr>scale := (scale m)\<lparr>vec_x := a\<rparr>\<rparr>"

definition set_scaleY :: "model \<Rightarrow> jsval \<Rightarrow> model" where
  "set_scaleY m a = m\<lparr>scale := (scale m)\<lparr>vec_y := a\<rparr>\<rparr>"

definition set_scaleZ :: "model \<Rightarrow> jsval \<Rightarrow> model" where
  "set_scaleZ m a = m\<lparr>scale := (scale m)\<lparr>vec_z := a\<rparr>\<rparr>"

subsection \<open>The dirty check\<close>

text \<open>
  \<^verbatim>\<open>isDirty\<close> reads the eleven monitored values and the eleven cached ones, stores the
  former in the cache, and compares. It returns its result together with the new state.
\<close>

definition isDirty :: "model \<Rightarrow> bool \<times> model" where
  "isDirty m =
     (let cache = dirtyCache m;
          px = vec_x (position m);
          py = vec_y (position m);
          pz = vec_z (position m);
          rx = quat_x (rotation m);
          ry = quat_y (rotation m);
          rz = quat_z (rotation m);
          rw = quat_w (rotation m);
          sx = vec_x (scale m);
          sy = vec_y (scale m);
          sz = vec_z (scale m);
          verts = JNum (real (vertexCount m));
          pxCached = js_get cache 0;
          pyCached = js_get cache 1;
          pzCached = js_get cache 2;
          rxCached = js_get cache 3;
          ryCached = js_get cache 4;
          rzCached = js_get cache 5;
          rwCached = js_get cache 6;
          sxCached = js_get cache 7;
          syCached = js_get cache 8;
          szCached = js_get cache 9;
          vCached = js_get cache 10;
          cache = js_set cache 0 px;
          cache = js_set cache 1 py;
          cache = js_set cache 2 pz;
          cache = js_set cache 3 rx;
          cache = js_set cache 4 ry;
          cache = js_set cache 5 rz;
          cache = js_set cache 6 rw;
          cache = js_set cache 7 sx;
          cache = js_set cache 8 sy;
          cache = js_set cache 9 sz;
          cache = js_set cache 10 verts
      in (js_sne pxCached px \<or> js_sne pyCached py \<or> js_sne pzCached pz \<or>
          js_sne rxCached rx \<or> js_sne ryCached ry \<or> js_sne rzCached rz \<or>
          js_sne rwCached rw \<or>
          js_sne sxCached sx \<or> js_sne syCached sy \<or> js_sne szCached sz \<or>
          js_sne vCached verts,
          m\<lparr>dirtyCache := cache\<rparr>))"

text \<open>
  The monitored values of a state, in the order of the cache, and the cached values that a
  dirty check reads.
\<close>

definition monitored :: "model \<Rightarrow> jsval list" where
  "monitored m =
     [vec_x (position m), vec_y (position m), vec_z (position m),
      quat_x (rotation m), quat_y (rotation m), quat_z (rotation m), quat_w (rotation m),
      vec_x (scale m), vec_y (scale m), vec_z (scale m),
      JNum (real (vertexCount m))]"

definition snapshot :: "model \<Rightarrow> jsval list" where
  "snapshot m = map (js_get (dirtyCache m)) [0, 1, 2, 3, 4, 5, 6, 7, 8, 9, 10]"

subsection \<open>The matrices\<close>

text \<open>
  The spec names the methods of Matrix4 by what they compute: the product of a translation
  and a rotation given as a quaternion, the concatenation of a scale, a copy, the inverse
  and the transpose. Each takes the receiver first and returns its new value.
\<close>

text \<open>Modelled from the spec: \<^verbatim>\<open>Matrix4.fromRotationTranslation\<close>, not part of the sources. The
  receiver becomes the rotation of the quaternion followed by the translation.\<close>

definition Matrix4_fromRotationTranslation :: "Matrix4 \<Rightarrow> Quaternion \<Rightarrow> Vector3 \<Rightarrow> Matrix4" where
  "Matrix4_fromRotationTranslation this q v =
     (let x = quat_x q; y = quat_y q; z = quat_z q; w = quat_w q;
          x2 = x + x; y2 = y + y; z2 = z + z;
          xx = x * x2; xy = x * y2; xz = x * z2;
          yy = y * y2; yz = y * z2; zz = z * z2;
          wx = w * x2; wy = w * y2; wz = w * z2
      in Matrix4 (JNum 1 - (yy + zz)) (xy + wz) (xz - wy) (JNum 0)
                 (xy - wz) (JNum 1 - (xx + zz)) (yz + wx) (JNum 0)
                 (xz + wy) (yz - wx) (JNum 1 - (xx + yy)) (JNum 0)
                 (vec_x v) (vec_y v) (vec_z v) (JNum 1))"

text \<open>Modelled from the spec: \<^verbatim>\<open>Matrix4.scale\<close>, not part of the sources. The scale is
  concatenated: the first three columns are multiplied by its components.\<close>

fun Matrix4_scale :: "Matrix4 \<Rightarrow> Vector3 \<Rightarrow> Matrix4" where
  "Matrix4_scale (Matrix4 a00 a01 a02 a03 a10 a11 a12 a13 a20 a21 a22 a23 a30 a31 a32 a33) v =
     (let x = vec_x v; y = vec_y v; z = vec_z v
      in Matrix4 (a00 * x) (a01 * x) (a02 * x) (a03 * x)
                 (a10 * y) (a11 * y) (a12 * y) (a13 * y)
                 (a20 * z) (a21 * z) (a22 * z) (a23 * z)
                 a30 a31 a32 a33)"

text \<open>Modelled from the spec: \<^verbatim>\<open>Matrix4.copy\<close>, not part of the sources. The receiver takes the
  entries of the source.\<close>

definition Matrix4_copy :: "Matrix4 \<Rightarrow> Matrix4 \<Rightarrow> Matrix4" where
  "Matrix4_copy this src = src"

text \<open>Modelled from the spec: \<^verbatim>\<open>Matrix4.transpose\<close>, not part of the sources.\<close>

fun Matrix4_transpose :: "Matrix4 \<Rightarrow> Matrix4" where
  "Matrix4_transpose (Matrix4 a00 a01 a02 a03 a10 a11 a12 a13 a20 a21 a22 a23 a30 a31 a32 a33) =
     Matrix4 a00 a10 a20 a30
             a01 a11 a21 a31
             a02 a12 a22 a32
             a03 a13 a23 a33"

text \<open>Modelled from the spec: \<^verbatim>\<open>Matrix4.invert\<close>, not part of the sources: the adjugate divided
  by the determinant. A determinant that is zero or not a number leaves the receiver as it
  is.\<close>

definition Matrix4_invert :: "Matrix4 \<Rightarrow> Matrix4" where
  "Matrix4_invert this =
     (case this of Matrix4 a00 a01 a02 a03 a10 a11 a12 a13 a20 a21 a22 a23 a30 a31 a32 a33 \<Rightarrow>
      let b00 = a00 * a11 - a01 * a10;
          b01 = a00 * a12 - a02 * a10;
          b02 = a00 * a13 - a03 * a10;
          b03 = a01 * a12 - a02 * a11;
          b04 = a01 * a13 - a03 * a11;
          b05 = a02 * a13 - a03 * a12;
          b06 = a20 * a31 - a21 * a30;
          b07 = a20 * a32 - a22 * a30;
          b08 = a20 * a33 - a23 * a30;
          b09 = a21 * a32 - a22 * a31;
          b10 = a21 * a33 - a23 * a31;
          b11 = a22 * a33 - a23 * a32;
          det = b00 * b11 - b01 * b10 + b02 * b09 + b03 * b08 - b04 * b07 + b05 * b06
      in case det of
           JNum d \<Rightarrow>
             if d = 0 then this
             else
               (let det = JNum (1 / d)
                in Matrix4 ((a11 * b11 - a12 * b10 + a13 * b09) * det)
                           ((a02 * b10 - a01 * b11 - a03 * b09) * det)
                           ((a31 * b05 - a32 * b04 + a33 * b03) * det)
                           ((a22 * b04 - a21 * b05 - a23 * b03) * det)
                           ((a12 * b08 - a10 * b11 - a13 * b07) * det)
                           ((a00 * b11 - a02 * b08 + a03 * b07) * det)
                           ((a32 * b02 - a30 * b05 - a33 * b01) * det)
                           ((a20 * b05 - a22 * b02 + a23 * b01) * det)
                           ((a10 * b10 - a11 * b08 + a13 * b06) * det)
                           ((a01 * b08 - a00 * b10 - a03 * b06) * det)
                           ((a30 * b04 - a31 * b02 + a33 * b00) * det)
                           ((a21 * b02 - a20 * b04 - a23 * b00) * det)
                           ((a11 * b07 - a10 * b09 - a12 * b06) * det)
                           ((a00 * b09 - a01 * b07 + a02 * b06) * det)
                           ((a31 * b01 - a30 * b03 - a32 * b00) * det)
                           ((a20 * b03 - a21 * b01 + a22 * b00) * det))
         | _ \<Rightarrow> this)"

text \<open>The matrix product, and the translation and scale matrices, to state what the methods compute.\<close>

fun Matrix4_multiply :: "Matrix4 \<Rightarrow> Matrix4 \<Rightarrow> Matrix4" where
  "Matrix4_multiply
     (Matrix4 a00 a01 a02 a03 a10 a11 a12 a13 a20 a21 a22 a23 a30 a31 a32 a33)
     (Matrix4 b00 b01 b02 b03 b10 b11 b12 b13 b20 b21 b22 b23 b30 b31 b32 b33) =
     Matrix4 (b00 * a00 + b01 * a10 + b02 * a20 + b03 * a30)
             (b00 * a01 + b01 * a11 + b02 * a21 + b03 * a31)
             (b00 * a02 + b01 * a12 + b02 * a22 + b03 * a32)
             (b00 * a03 + b01 * a13 + b02 * a23 + b03 * a33)
             (b10 * a00 + b11 * a10 + b12 * a20 + b13 * a30)
             (b10 * a01 + b11 * a11 + b12 * a21 + b13 * a31)
             (b10 * a02 + b11 * a12 + b12 * a22 + b13 * a32)
             (b10 * a03 + b11 * a13 + b12 * a23 + b13 * a33)
             (b20 * a00 + b21 * a10 + b22 * a20 + b23 * a30)
             (b20 * a01 + b21 * a11 + b22 * a21 + b23 * a31)
             (b20 * a02 + b21 * a12 + b22 * a22 + b23 * a32)
             (b20 * a03 + b21 * a13 + b22 * a23 + b23 * a33)
             (b30 * a00 + b31 * a10 + b32 * a20 + b33 * a30)
             (b30 * a01 + b31 * a11 + b32 * a21 + b33 * a31)
             (b30 * a02 + b31 * a12 + b32 * a22 + b33 * a32)
             (b30 * a03 + b31 * a13 + b32 * a23 + b33 * a33)"

text \<open>The determinant of a matrix of numbers, from its entries.\<close>

definition det4 ::
  "real \<Rightarrow> real \<Rightarrow> real \<Rightarrow> real \<Rightarrow> real \<Rightarrow> real \<Rightarrow> real \<Rightarrow> real \<Rightarrow>
   real \<Rightarrow> real \<Rightarrow> real \<Rightarrow> real \<Rightarrow> real \<Rightarrow> real \<Rightarrow> real \<Rightarrow> real \<Rightarrow> real" where
  "det4 a00 a01 a02 a03 a10 a11 a12 a13 a20 a21 a22 a23 a30 a31 a32 a33 =
     (a00 * a11 - a01 * a10) * (a22 * a33 - a23 * a32)
     - (a00 * a12 - a02 * a10) * (a21 * a33 - a23 * a31)
     + (a00 * a13 - a03 * a10) * (a21 * a32 - a22 * a31)
     + (a01 * a12 - a02 * a11) * (a20 * a33 - a23 * a30)
     - (a01 * a13 - a03 * a11) * (a20 * a32 - a22 * a30)
     + (a02 * a13 - a03 * a12) * (a20 * a31 - a21 * a30)"

text \<open>The rotation part of a matrix: the first three entries of its first three columns.\<close>

fun upper3x3 :: "Matrix4 \<Rightarrow> jsval list" where
  "upper3x3 (Matrix4 a00 a01 a02 a03 a10 a11 a12 a13 a20 a21 a22 a23 a30 a31 a32 a33) =
     [a00, a01, a02, a10, a11, a12, a20, a21, a22]"

definition translation_matrix :: "real \<Rightarrow> real \<Rightarrow> real \<Rightarrow> Matrix4" where
  "translation_matrix tx ty tz =
     Matrix4 (JNum 1) (JNum 0) (JNum 0) (JNum 0)
             (JNum 0) (JNum 1) (JNum 0) (JNum 0)
             (JNum 0) (JNum 0) (JNum 1) (JNum 0)
             (JNum tx) (JNum ty) (JNum tz) (JNum 1)"

definition scale_matrix :: "real \<Rightarrow> real \<Rightarrow> real \<Rightarrow> Matrix4" where
  "scale_matrix sx sy sz =
     Matrix4 (JNum sx) (JNum 0) (JNum 0) (JNum 0)
             (JNum 0) (JNum sy) (JNum 0) (JNum 0)
             (JNum 0) (JNum 0) (JNum sz) (JNum 0)
             (JNum 0) (JNum 0) (JNum 0) (JNum 1)"

subsection \<open>The per-tick update\<close>

text \<open>
  \<^verbatim>\<open>preUpdate\<close> first advances the animation state, a collaborator outside this state, with
  \<open>time\<close> and \<open>delta\<close>; then it rebuilds the two matrices if the dirty check says so.
\<close>

definition preUpdate :: "model \<Rightarrow> jsval \<Rightarrow> jsval \<Rightarrow> model" where
  "preUpdate m time delta =
     (case isDirty m of
        (dirty, m) \<Rightarrow>
          if dirty then
            (let nm = normalMatrix m;
                 tm = transformMatrix m;
                 tm = Matrix4_fromRotationTranslation tm (rotation m) (position m);
                 tm = Matrix4_scale tm (scale m);
                 nm = Matrix4_copy nm tm;
                 nm = Matrix4_invert nm;
                 nm = Matrix4_transpose nm
             in m\<lparr>normalMatrix := nm, transformMatrix := tm\<rparr>)
          else m)"

subsection \<open>Adding vertices from arrays\<close>

text \<open>
  What \<^verbatim>\<open>addVertices\<close> can throw: the \<^verbatim>\<open>Error\<close> that it creates itself, with its message,
  and the \<^verbatim>\<open>TypeError\<close> of a property access on \<^verbatim>\<open>undefined\<close>.
\<close>

datatype error = Error string | TypeError

text \<open>The parameters \<^verbatim>\<open>colors\<close> and \<^verbatim>\<open>alphas\<close> are a single value or an array of values.\<close>

datatype js_param = Single jsval | Array "jsval list"

text \<open>\<^verbatim>\<open>(isColorArray) ? colors[i] : colors\<close>, the result being an argument of \<^verbatim>\<open>new Vertex\<close>.\<close>

fun param_at :: "js_param \<Rightarrow> nat \<Rightarrow> jsval" where
  "param_at (Array xs) i = js_get xs i"
| "param_at (Single a) i = a"

text \<open>\<^verbatim>\<open>a.push(e)\<close> throws a \<^verbatim>\<open>TypeError\<close> when \<^verbatim>\<open>a\<close> is \<^verbatim>\<open>undefined\<close>.\<close>

fun array_push :: "'a list option \<Rightarrow> 'a \<Rightarrow> error + 'a list" where
  "array_push None e = Inl TypeError"
| "array_push (Some xs) e = Inr (xs @ [e])"

text \<open>An element of an array of objects, \<^verbatim>\<open>undefined\<close> outside the array.\<close>

definition obj_get :: "'a list \<Rightarrow> nat \<Rightarrow> 'a option" where
  "obj_get xs i = (if i < length xs then Some (xs ! i) else None)"

text \<open>
  The loop over \<^verbatim>\<open>indicies\<close>: the indices still to visit, the loop counter \<open>i\<close>, and
  the array \<open>verts\<close>.
\<close>

fun addIndexed ::
  "jsval list \<Rightarrow> jsval list \<Rightarrow> js_param \<Rightarrow> js_param \<Rightarrow> nat list \<Rightarrow> nat \<Rightarrow> VertexObj list option
    \<Rightarrow> error + VertexObj list option" where
  "addIndexed vs uvs colors alphas [] i verts = Inr verts"
| "addIndexed vs uvs colors alphas (ix # rest) i verts =
     (let index = ix * 2;
          vert = Vertex (js_get vs index) (js_get vs (index + 1)) (JNum 0)
                        (js_get uvs index) (js_get uvs (index + 1))
                        (param_at colors i) (param_at alphas i)
      in case array_push verts vert of
           Inl e \<Rightarrow> Inl e
         | Inr verts' \<Rightarrow> addIndexed vs uvs colors alphas rest (i + 1) (Some verts'))"

text \<open>The loop over the pairs of \<^verbatim>\<open>vertices\<close>, with the counters \<open>i\<close> and \<open>colorIndex\<close>.\<close>

function addPairs ::
  "jsval list \<Rightarrow> jsval list \<Rightarrow> js_param \<Rightarrow> js_param \<Rightarrow> nat \<Rightarrow> nat \<Rightarrow> VertexObj list option
    \<Rightarrow> error + VertexObj list option" where
  "addPairs vs uvs colors alphas i colorIndex verts =
     (if i < length vs then
        (let vert = Vertex (js_get vs i) (js_get vs (i + 1)) (JNum 0)
                           (js_get uvs i) (js_get uvs (i + 1))
                           (param_at colors colorIndex) (param_at alphas colorIndex)
         in case array_push verts vert of
              Inl e \<Rightarrow> Inl e
            | Inr verts' \<Rightarrow> addPairs vs uvs colors alphas (i + 2) (colorIndex + 1) (Some verts'))
      else Inr verts)"
  by pat_completeness auto
termination
  by (relation "measure (\<lambda>(vs, uvs, colors, alphas, i, colorIndex, verts). length vs - i)") auto

text \<open>The loop that groups \<^verbatim>\<open>verts\<close> into faces, three by three from its first element.\<close>

function makeFaces :: "VertexObj list \<Rightarrow> nat \<Rightarrow> FaceObj list option \<Rightarrow> error + FaceObj list option" where
  "makeFaces verts i fs =
     (if i < length verts then
        (let vert1 = obj_get verts i;
             vert2 = obj_get verts (i + 1);
             vert3 = obj_get verts (i + 2);
             face = Face vert1 vert2 vert3
         in case array_push fs face of
              Inl e \<Rightarrow> Inl e
            | Inr fs' \<Rightarrow> makeFaces verts (i + 3) (Some fs'))
      else Inr fs)"
  by pat_completeness auto
termination
  by (relation "measure (\<lambda>(verts, i, fs). length verts - i)") auto

text \<open>The equations of the two loops are unfolded by hand, not by the simplifier.\<close>

declare addPairs.simps [simp del]

declare makeFaces.simps [simp del]

text \<open>
  \<^verbatim>\<open>addVertices (vertices, uvs, indicies, colors, alphas)\<close> returns what it threw, or \<open>Inr ()\<close>
  for \<^verbatim>\<open>return this\<close>, together with the state it leaves. \<^verbatim>\<open>indicies\<close> is \<open>None\<close> when it
  is not an array. A \<^verbatim>\<open>push\<close> throws only when its array is \<^verbatim>\<open>undefined\<close>, and then
  nothing has been pushed to it; \<^verbatim>\<open>verts.length\<close> throws when \<^verbatim>\<open>verts\<close> is \<^verbatim>\<open>undefined\<close>.
\<close>

definition addVertices ::
  "model \<Rightarrow> jsval list \<Rightarrow> jsval list \<Rightarrow> nat list option \<Rightarrow> js_param \<Rightarrow> js_param
    \<Rightarrow> (error + unit) \<times> model" where
  "addVertices m vs uvs indicies colors0 alphas0 =
     (let colors = (if colors0 = Single JUndefined then Single (JNum 16777215) else colors0);
          alphas = (if alphas0 = Single JUndefined then Single (JNum 1) else alphas0)
      in if length vs \<noteq> length uvs
         then (Inl (Error ''Mesh - vertices and uv count not equal''), m)
         else
           (let verts = vertices m;
                fs = faces m;
                pushed =
                  (case indicies of
                     Some (ix # rest) \<Rightarrow> addIndexed vs uvs colors alphas (ix # rest) 0 verts
                   | _ \<Rightarrow> addPairs vs uvs colors alphas 0 0 verts)
            in case pushed of
                 Inl e \<Rightarrow> (Inl e, m)
               | Inr None \<Rightarrow> (Inl TypeError, m)
               | Inr (Some verts') \<Rightarrow>
                   (case makeFaces verts' 0 fs of
                      Inl e \<Rightarrow> (Inl e, m\<lparr>vertices := Some verts'\<rparr>)
                    | Inr fs' \<Rightarrow> (Inr (), m\<lparr>vertices := Some verts', faces := fs'\<rparr>))))"

section \<open>Properties of the arrays\<close>

lemma length_f32_set: "length (f32_set fr buf i v) = length buf"
  by (simp add: f32_set_def)

lemma f32_get_f32_set:
  "f32_get (f32_set fr buf i v) j =
     (if j = i \<and> 0 \<le> i \<and> i < int (length buf) then toF32 fr v else f32_get buf j)"
  by (auto simp: f32_get_def f32_set_def nat_eq_iff)

lemma f32_get_f32_set_other: "j \<noteq> i \<Longrightarrow> f32_get (f32_set fr buf i v) j = f32_get buf j"
  by (simp add: f32_get_f32_set)

lemmas js_arith = plus_jsval_def minus_jsval_def times_jsval_def

lemma js_get_js_set: "js_get (js_set xs i v) j = (if j = i then v else js_get xs j)"
  by (auto simp: js_get_def js_set_def nth_append)

lemma js_sne_iff: "v \<noteq> JNaN \<Longrightarrow> js_sne c v = (c \<noteq> v)"
  by (cases c; cases v) simp_all

lemma js_sne_neq: "c \<noteq> v \<Longrightarrow> js_sne c v"
  by (cases c; cases v) simp_all

lemma differ_iff:
  "length cs = length vs \<Longrightarrow> JNaN \<notin> set vs \<Longrightarrow>
     list_ex (\<lambda>(c, v). js_sne c v) (zip cs vs) = (cs \<noteq> vs)"
  by (induction cs vs rule: list_induct2) (auto simp: js_sne_iff)

lemma differ_if:
  "length cs = length vs \<Longrightarrow> cs \<noteq> vs \<Longrightarrow> list_ex (\<lambda>(c, v). js_sne c v) (zip cs vs)"
  by (induction cs vs rule: list_induct2) (auto simp: js_sne_neq)

section \<open>Properties of the vertex buffer\<close>

lemma vertexCount_addVertex: "vertexCount (addVertex fr m x y z u v nx ny nz) = vertexCount m + 1"
  by (simp add: addVertex_def Let_def)

lemma capacity_addVertex: "capacity (addVertex fr m x y z u v nx ny nz) = capacity m"
  by (simp add: addVertex_def Let_def capacity_def length_f32_set)

lemma length_addVertex:
  "length (vertexViewF32 (addVertex fr m x y z u v nx ny nz)) = length (vertexViewF32 m)"
  by (simp add: addVertex_def Let_def length_f32_set)

lemma vertexCount_Model: "vertexCount (Model nv nq n x y z) = 0"
  by (simp add: Model_def Let_def)

lemma capacity_Model: "capacity (Model nv nq n x y z) = n"
  by (simp add: Model_def Let_def capacity_def)

lemma length_Model: "length (vertexViewF32 (Model nv nq n x y z)) = 8 * n"
  by (simp add: Model_def Let_def)

lemma getVertex_addVertex_stored:
  assumes "vertexCount m < capacity m"
  shows "getVertex (addVertex fr m x y z u v nx ny nz) (vertexCount m) =
     \<lparr>vertex_x = toF32 fr x, vertex_y = toF32 fr y, vertex_z = toF32 fr z,
      vertex_u = toF32 fr u, vertex_v = toF32 fr v,
      normalX = toF32 fr nx, normalY = toF32 fr ny, normalZ = toF32 fr nz, alpha = JNum 1\<rparr>"
proof -
  from assms have "8 * int (vertexCount m) + 7 < int (length (vertexViewF32 m))"
    unfolding capacity_def by linarith
  then show ?thesis
    by (simp add: getVertex_def addVertex_def Let_def f32_get_f32_set length_f32_set)
qed

lemma f32_get_addVertex_outside:
  assumes "k < int (vertexCount m) * 8 \<or> int (vertexCount m) * 8 + 8 \<le> k"
  shows "f32_get (vertexViewF32 (addVertex fr m x y z u v nx ny nz)) k = f32_get (vertexViewF32 m) k"
proof -
  have "k \<noteq> int (vertexCount m) * 8 + a" if "0 \<le> a" "a < 8" for a
    using assms that by linarith
  from this [of 0] this [of 1] this [of 2] this [of 3] this [of 4] this [of 5] this [of 6] this [of 7]
  show ?thesis
    by (simp add: addVertex_def Let_def f32_get_f32_set_other add.commute)
qed

lemma getVertex_addVertex_other:
  assumes "j \<noteq> vertexCount m"
  shows "getVertex (addVertex fr m x y z u v nx ny nz) j = getVertex m j"
proof -
  have "f32_get (vertexViewF32 (addVertex fr m x y z u v nx ny nz)) (int j * 8 + a)
          = f32_get (vertexViewF32 m) (int j * 8 + a)"
    if "0 \<le> a" "a < 8" for a
    by (rule f32_get_addVertex_outside) (use assms that in presburger)
  from this [of 0] this [of 1] this [of 2] this [of 3] this [of 4] this [of 5] this [of 6] this [of 7]
  show ?thesis
    by (simp add: getVertex_def Let_def add.commute)
qed

lemma triangle_vertices:
  assumes "fr 0 = 0"
  shows "getVertex (triangle fr x1 y1 x2 y2 x3 y3) 0 =
           \<lparr>vertex_x = JNum (fr x1), vertex_y = JNum (fr y1), vertex_z = JNum 0,
            vertex_u = JNum 0, vertex_v = JNum 0,
            normalX = JNum 0, normalY = JNum 0, normalZ = JNum 0, alpha = JNum 1\<rparr>"
    and "getVertex (triangle fr x1 y1 x2 y2 x3 y3) (Suc 0) =
           \<lparr>vertex_x = JNum (fr x2), vertex_y = JNum (fr y2), vertex_z = JNum 0,
            vertex_u = JNum 0, vertex_v = JNum 0,
            normalX = JNum 0, normalY = JNum 0, normalZ = JNum 0, alpha = JNum 1\<rparr>"
    and "getVertex (triangle fr x1 y1 x2 y2 x3 y3) (Suc (Suc 0)) =
           \<lparr>vertex_x = JNum (fr x3), vertex_y = JNum (fr y3), vertex_z = JNum 0,
            vertex_u = JNum 0, vertex_v = JNum 0,
            normalX = JNum 0, normalY = JNum 0, normalZ = JNum 0, alpha = JNum 1\<rparr>"
proof -
  let ?z = "JNum 0"
  define m0 where "m0 = Model_or_zero 3 JUndefined JUndefined JUndefined"
  define m1 where "m1 = addVertex fr m0 (JNum x1) (JNum y1) ?z ?z ?z ?z ?z ?z"
  define m2 where "m2 = addVertex fr m1 (JNum x2) (JNum y2) ?z ?z ?z ?z ?z ?z"
  define m3 where "m3 = addVertex fr m2 (JNum x3) (JNum y3) ?z ?z ?z ?z ?z ?z"
  have t: "triangle fr x1 y1 x2 y2 x3 y3 = m3"
    by (simp add: triangle_def Let_def m0_def m1_def m2_def m3_def)
  have c0: "vertexCount m0 = 0" "capacity m0 = 3"
    by (simp_all add: m0_def Model_or_zero_def vertexCount_Model capacity_Model)
  have c1: "vertexCount m1 = Suc 0" "capacity m1 = 3"
    by (simp_all add: m1_def vertexCount_addVertex capacity_addVertex c0)
  have c2: "vertexCount m2 = Suc (Suc 0)" "capacity m2 = 3"
    by (simp_all add: m2_def vertexCount_addVertex capacity_addVertex c1)
  have s1: "getVertex m1 0 =
           \<lparr>vertex_x = JNum (fr x1), vertex_y = JNum (fr y1), vertex_z = JNum 0,
            vertex_u = JNum 0, vertex_v = JNum 0,
            normalX = JNum 0, normalY = JNum 0, normalZ = JNum 0, alpha = JNum 1\<rparr>"
    unfolding m1_def
    using getVertex_addVertex_stored [of m0 fr "JNum x1" "JNum y1" ?z ?z ?z ?z ?z ?z] assms
    by (simp add: c0)
  have s2: "getVertex m2 (Suc 0) =
           \<lparr>vertex_x = JNum (fr x2), vertex_y = JNum (fr y2), vertex_z = JNum 0,
            vertex_u = JNum 0, vertex_v = JNum 0,
            normalX = JNum 0, normalY = JNum 0, normalZ = JNum 0, alpha = JNum 1\<rparr>"
    unfolding m2_def
    using getVertex_addVertex_stored [of m1 fr "JNum x2" "JNum y2" ?z ?z ?z ?z ?z ?z] assms
    by (simp add: c1)
  have s3: "getVertex m3 (Suc (Suc 0)) =
           \<lparr>vertex_x = JNum (fr x3), vertex_y = JNum (fr y3), vertex_z = JNum 0,
            vertex_u = JNum 0, vertex_v = JNum 0,
            normalX = JNum 0, normalY = JNum 0, normalZ = JNum 0, alpha = JNum 1\<rparr>"
    unfolding m3_def
    using getVertex_addVertex_stored [of m2 fr "JNum x3" "JNum y3" ?z ?z ?z ?z ?z ?z] assms
    by (simp add: c2)
  have k21: "getVertex m2 0 = getVertex m1 0"
    unfolding m2_def by (rule getVertex_addVertex_other) (simp add: c1)
  have k32: "getVertex m3 0 = getVertex m2 0" "getVertex m3 (Suc 0) = getVertex m2 (Suc 0)"
    unfolding m3_def by (rule getVertex_addVertex_other, simp add: c2)+
  show "getVertex (triangle fr x1 y1 x2 y2 x3 y3) 0 =
           \<lparr>vertex_x = JNum (fr x1), vertex_y = JNum (fr y1), vertex_z = JNum 0,
            vertex_u = JNum 0, vertex_v = JNum 0,
            normalX = JNum 0, normalY = JNum 0, normalZ = JNum 0, alpha = JNum 1\<rparr>"
    unfolding t k32 k21 by (rule s1)
  show "getVertex (triangle fr x1 y1 x2 y2 x3 y3) (Suc 0) =
           \<lparr>vertex_x = JNum (fr x2), vertex_y = JNum (fr y2), vertex_z = JNum 0,
            vertex_u = JNum 0, vertex_v = JNum 0,
            normalX = JNum 0, normalY = JNum 0, normalZ = JNum 0, alpha = JNum 1\<rparr>"
    unfolding t k32 by (rule s2)
  show "getVertex (triangle fr x1 y1 x2 y2 x3 y3) (Suc (Suc 0)) =
           \<lparr>vertex_x = JNum (fr x3), vertex_y = JNum (fr y3), vertex_z = JNum 0,
            vertex_u = JNum 0, vertex_v = JNum 0,
            normalX = JNum 0, normalY = JNum 0, normalZ = JNum 0, alpha = JNum 1\<rparr>"
    unfolding t by (rule s3)
qed


lemma getFace_ccw:
  "isCounterClockwise (getFace rd m i) =
     js_ge (cross2d rd (getVertex m (3 * i)) (getVertex m (3 * i + 1)) (getVertex m (3 * i + 2)))
       (JNum 0)"
  by (simp add: getFace_def Let_def cross2d_def mult.commute)

text \<open>
  Rounding can change the sign of the test. With the vertices \<open>(e, 0)\<close>, (1,1) and (2,2),
  where \<open>e\<close> is positive and so small that \<open>1 - e\<close> rounds to 1 and \<open>2 - e\<close> to 2 (in
  double precision \<open>e = 2\<^sup>-\<^sup>6\<^sup>0\<close> is such a number), the test is true, and the exact cross
  product is negative.
\<close>

lemma getFace_winding_rounded:
  assumes "fr 0 = 0" "fr 1 = 1" "fr 2 = 2" "fr e = e"
    and "rd 0 = 0" "rd 1 = 1" "rd 2 = 2" "rd (1 - e) = 1" "rd (2 - e) = 2"
    and "0 < e"
  shows "isCounterClockwise (getFace rd (triangle fr e 0 1 1 2 2) 0)"
    and "(1 - e) * (2 - 0) - (1 - 0) * (2 - e) < 0"
proof -
  show "isCounterClockwise (getFace rd (triangle fr e 0 1 1 2 2) 0)"
    using getFace_ccw [of rd "triangle fr e 0 1 1 2 2" 0] assms
    by (simp add: triangle_vertices cross2d_def)
  show "(1 - e) * (2 - 0) - (1 - 0) * (2 - e) < 0"
    using assms(10) by (simp add: algebra_simps)
qed

section \<open>Faces\<close>

text \<open>
  C1: for every face index \<open>i\<close>, \<^verbatim>\<open>getFace(i)\<close> should return the decoded vertices
  \<open>3 i\<close>, \<open>3 i + 1\<close> and \<open>3 i + 2\<close> as \<^verbatim>\<open>vertex1\<close>, \<^verbatim>\<open>vertex2\<close> and \<^verbatim>\<open>vertex3\<close>. The
  first two are these vertices; \<^verbatim>\<open>vertex3\<close> is the number 3 for every Model and every
  index, and so never the third vertex.
\<close>

theorem getFace_vertices:
  "vertex1 (getFace rd m i) = getVertex m (3 * i)
   \<and> vertex2 (getFace rd m i) = getVertex m (3 * i + 1)
   \<and> vertex3 (getFace rd m i) = SlotNumber 3
   \<and> vertex3 (getFace rd m i) \<noteq> SlotVertex (getVertex m (3 * i + 2))"
  by (simp add: getFace_def Let_def mult.commute)



section \<open>The vertex buffer\<close>

text \<open>
  C4: when the Model has room for its next vertex, the vertex number \<open>i\<close>, and the eight
  attributes given to \<^verbatim>\<open>addVertex\<close> are single-precision values, \<^verbatim>\<open>getVertex(i)\<close> returns
  these attributes as they are, with \<^verbatim>\<open>alpha\<close> equal to 1, and the buffer holds them from
  offset \<open>8 i\<close> in the order x, y, z, normalX, normalY, normalZ, u, v.
\<close>

theorem getVertex_addVertex_roundtrip:
  assumes "vertexCount m < capacity m"
    and "is_float32 fr x" "is_float32 fr y" "is_float32 fr z"
    and "is_float32 fr u" "is_float32 fr v"
    and "is_float32 fr nx" "is_float32 fr ny" "is_float32 fr nz"
  shows "getVertex (addVertex fr m x y z u v nx ny nz) (vertexCount m) =
           \<lparr>vertex_x = x, vertex_y = y, vertex_z = z, vertex_u = u, vertex_v = v,
            normalX = nx, normalY = ny, normalZ = nz, alpha = JNum 1\<rparr>
         \<and> map (\<lambda>k. f32_get (vertexViewF32 (addVertex fr m x y z u v nx ny nz))
                      (int (vertexCount m) * 8 + k)) [0, 1, 2, 3, 4, 5, 6, 7]
             = [x, y, z, nx, ny, nz, u, v]"
proof
  show "getVertex (addVertex fr m x y z u v nx ny nz) (vertexCount m) =
           \<lparr>vertex_x = x, vertex_y = y, vertex_z = z, vertex_u = u, vertex_v = v,
            normalX = nx, normalY = ny, normalZ = nz, alpha = JNum 1\<rparr>"
    using assms(2-) getVertex_addVertex_stored [OF assms(1)]
    by (simp add: is_float32_def)
  from assms(1) have "8 * int (vertexCount m) + 7 < int (length (vertexViewF32 m))"
    unfolding capacity_def by linarith
  with assms(2-)
  show "map (\<lambda>k. f32_get (vertexViewF32 (addVertex fr m x y z u v nx ny nz))
                      (int (vertexCount m) * 8 + k)) [0, 1, 2, 3, 4, 5, 6, 7]
             = [x, y, z, nx, ny, nz, u, v]"
    by (simp add: addVertex_def Let_def f32_get_f32_set length_f32_set is_float32_def)
qed

theorem getVertex_addVertex_roundtrip_witness:
  "vertexCount (Model_or_zero 2 JUndefined JUndefined JUndefined)
     < capacity (Model_or_zero 2 JUndefined JUndefined JUndefined)
   \<and> is_float32 (\<lambda>r. r) (JNum 1) \<and> is_float32 (\<lambda>r. r) (JNum 2) \<and> is_float32 (\<lambda>r. r) (JNum 3)
   \<and> is_float32 (\<lambda>r. r) (JNum 4) \<and> is_float32 (\<lambda>r. r) (JNum 5) \<and> is_float32 (\<lambda>r. r) (JNum 6)
   \<and> is_float32 (\<lambda>r. r) (JNum 7) \<and> is_float32 (\<lambda>r. r) JNaN
   \<and> getVertex
        (addVertex (\<lambda>r. r) (Model_or_zero 2 JUndefined JUndefined JUndefined)
           (JNum 1) (JNum 2) (JNum 3) (JNum 4) (JNum 5) (JNum 6) (JNum 7) JNaN) 0
       = \<lparr>vertex_x = JNum 1, vertex_y = JNum 2, vertex_z = JNum 3, vertex_u = JNum 4,
          vertex_v = JNum 5, normalX = JNum 6, normalY = JNum 7, normalZ = JNaN,
          alpha = JNum 1\<rparr>"
  using getVertex_addVertex_roundtrip [of "Model_or_zero 2 JUndefined JUndefined JUndefined" "\<lambda>r. r"
      "JNum 1" "JNum 2" "JNum 3" "JNum 4" "JNum 5" "JNum 6" "JNum 7" JNaN]
  by (simp add: is_float32_def Model_or_zero_def vertexCount_Model capacity_Model)

text \<open>
  C10: \<^verbatim>\<open>addVertex\<close> has no capacity check and no error. In a Model whose buffer is full,
  its vertex count being the capacity, one more \<^verbatim>\<open>addVertex\<close> increments the vertex count
  and changes nothing else: the eight writes fall outside the buffer and are discarded.
  The buffer of a constructed Model has eight elements for each vertex of its capacity,
  and \<^verbatim>\<open>addVertex\<close> keeps its length (\<open>length_Model\<close>, \<open>length_addVertex\<close>).
\<close>

theorem addVertex_at_capacity:
  assumes "length (vertexViewF32 m) = 8 * capacity m" and "vertexCount m = capacity m"
  shows "addVertex fr m x y z u v nx ny nz = m\<lparr>vertexCount := vertexCount m + 1\<rparr>"
proof -
  from assms have "int (length (vertexViewF32 m)) \<le> int (vertexCount m) * 8" by simp
  then show ?thesis
    by (simp add: addVertex_def Let_def f32_set_def)
qed

theorem addVertex_at_capacity_witness:
  "length (vertexViewF32 (triangle (\<lambda>r. r) 0 0 1 0 0 1)) = 8 * capacity (triangle (\<lambda>r. r) 0 0 1 0 0 1)
   \<and> vertexCount (triangle (\<lambda>r. r) 0 0 1 0 0 1) = capacity (triangle (\<lambda>r. r) 0 0 1 0 0 1)
   \<and> capacity (triangle (\<lambda>r. r) 0 0 1 0 0 1) = 3
   \<and> addVertex (\<lambda>r. r) (triangle (\<lambda>r. r) 0 0 1 0 0 1)
         (JNum 5) (JNum 5) (JNum 5) (JNum 5) (JNum 5) (JNum 5) (JNum 5) (JNum 5)
       = (triangle (\<lambda>r. r) 0 0 1 0 0 1)\<lparr>vertexCount := 4\<rparr>"
  using addVertex_at_capacity [of "triangle (\<lambda>r. r) 0 0 1 0 0 1" "\<lambda>r. r"
      "JNum 5" "JNum 5" "JNum 5" "JNum 5" "JNum 5" "JNum 5" "JNum 5" "JNum 5"]
  by (simp add: triangle_def Let_def Model_or_zero_def vertexCount_addVertex vertexCount_Model
      capacity_addVertex capacity_Model capacity_def [symmetric] length_addVertex length_Model)

section \<open>Adding vertices from arrays\<close>

lemma addPairs_undefined:
  "addPairs vs uvs colors alphas i colorIndex None =
     (if i < length vs then Inl TypeError else Inr None)"
  by (subst addPairs.simps) (simp add: Let_def)

lemma addIndexed_undefined:
  "addIndexed vs uvs colors alphas (ix # rest) i None = Inl TypeError"
  by (simp add: Let_def)

lemma vertices_Model: "vertices (Model nv nq n x y z) = None"
  by (simp add: Model_def Let_def)

lemma pushed_undefined:
  "(case indicies of
      Some (ix # rest) \<Rightarrow> addIndexed vs uvs c a (ix # rest) 0 None
    | _ \<Rightarrow> addPairs vs uvs c a 0 0 None) = Inl TypeError
   \<or> (case indicies of
      Some (ix # rest) \<Rightarrow> addIndexed vs uvs c a (ix # rest) 0 None
    | _ \<Rightarrow> addPairs vs uvs c a 0 0 None) = Inr None"
  by (simp add: addPairs_undefined addIndexed_undefined split: option.splits list.splits)

lemma addVertices_unfold:
  assumes "length vs = length uvs"
  shows "addVertices m vs uvs indicies colors alphas =
     (case (case indicies of
              Some (ix # rest) \<Rightarrow>
                addIndexed vs uvs
                  (if colors = Single JUndefined then Single (JNum 16777215) else colors)
                  (if alphas = Single JUndefined then Single (JNum 1) else alphas)
                  (ix # rest) 0 (vertices m)
            | _ \<Rightarrow>
                addPairs vs uvs
                  (if colors = Single JUndefined then Single (JNum 16777215) else colors)
                  (if alphas = Single JUndefined then Single (JNum 1) else alphas)
                  0 0 (vertices m)) of
        Inl e \<Rightarrow> (Inl e, m)
      | Inr None \<Rightarrow> (Inl TypeError, m)
      | Inr (Some verts') \<Rightarrow>
          (case makeFaces verts' 0 (faces m) of
             Inl e \<Rightarrow> (Inl e, m\<lparr>vertices := Some verts'\<rparr>)
           | Inr fs' \<Rightarrow> (Inr (), m\<lparr>vertices := Some verts', faces := fs'\<rparr>)))"
  unfolding addVertices_def Let_def using assms by simp

lemma addVertices_undefined:
  assumes "vertices m = None" and "length vs = length uvs"
  shows "addVertices m vs uvs indicies colors alphas = (Inl TypeError, m)"
  using pushed_undefined [where indicies = indicies and vs = vs and uvs = uvs
      and c = "if colors = Single JUndefined then Single (JNum 16777215) else colors"
      and a = "if alphas = Single JUndefined then Single (JNum 1) else alphas"]
  unfolding addVertices_unfold [OF assms(2)] assms(1)
  by (elim disjE) (simp_all only: sum.case option.case)

lemma snd_outcome:
  assumes "\<And>v. f (g v) = f m" and "\<And>v fs. f (h v fs) = f m"
  shows "f (snd (case p of
                  Inl e \<Rightarrow> (Inl e, m)
                | Inr None \<Rightarrow> (Inl TypeError, m)
                | Inr (Some v) \<Rightarrow>
                    (case q v of
                       Inl e \<Rightarrow> (Inl e, g v)
                     | Inr fs \<Rightarrow> (Inr (), h v fs)))) = f m"
  using assms by (simp split: sum.split option.split)

lemma addVertices_buffer:
  "vertexCount (snd (addVertices m vs uvs indicies colors alphas)) = vertexCount m"
  "vertexViewF32 (snd (addVertices m vs uvs indicies colors alphas)) = vertexViewF32 m"
proof -
  have "vertexCount (snd (addVertices m vs uvs indicies colors alphas)) = vertexCount m
        \<and> vertexViewF32 (snd (addVertices m vs uvs indicies colors alphas)) = vertexViewF32 m"
  proof (cases "length vs = length uvs")
    case False
    then show ?thesis by (simp add: addVertices_def Let_def)
  next
    case True
    show ?thesis
      unfolding addVertices_unfold [OF True]
      by (rule conjI; rule snd_outcome; simp)
  qed
  then show "vertexCount (snd (addVertices m vs uvs indicies colors alphas)) = vertexCount m"
    and "vertexViewF32 (snd (addVertices m vs uvs indicies colors alphas)) = vertexViewF32 m"
    by simp_all
qed

text \<open>
  With the two arrays assigned from outside, \<^verbatim>\<open>addVertices\<close> emits its vertices in array
  order, or in index order, and groups them into faces; the packed buffer stays as it is.
\<close>

lemma addVertices_emits_in_order:
  "addVertices (m\<lparr>vertices := Some [], faces := Some []\<rparr>)
         [JNum 0, JNum 0, JNum 1, JNum 0, JNum 0, JNum 1]
         [JNum 0, JNum 0, JNum 1, JNum 0, JNum 0, JNum 1]
         None (Single JUndefined) (Single JUndefined)
   = (Inr (),
      m\<lparr>vertices := Some
           [Vertex (JNum 0) (JNum 0) (JNum 0) (JNum 0) (JNum 0) (JNum 16777215) (JNum 1),
            Vertex (JNum 1) (JNum 0) (JNum 0) (JNum 1) (JNum 0) (JNum 16777215) (JNum 1),
            Vertex (JNum 0) (JNum 1) (JNum 0) (JNum 0) (JNum 1) (JNum 16777215) (JNum 1)],
         faces := Some
           [Face (Some (Vertex (JNum 0) (JNum 0) (JNum 0) (JNum 0) (JNum 0) (JNum 16777215) (JNum 1)))
                 (Some (Vertex (JNum 1) (JNum 0) (JNum 0) (JNum 1) (JNum 0) (JNum 16777215) (JNum 1)))
                 (Some (Vertex (JNum 0) (JNum 1) (JNum 0) (JNum 0) (JNum 1) (JNum 16777215) (JNum 1)))]\<rparr>)"
  by (simp add: addVertices_def Let_def addPairs.simps makeFaces.simps js_get_def obj_get_def)

lemma addVertices_emits_in_index_order:
  "addVertices (m\<lparr>vertices := Some [], faces := Some []\<rparr>)
         [JNum 10, JNum 11, JNum 20, JNum 21, JNum 30, JNum 31]
         [JNum 0, JNum 1, JNum 1, JNum 1, JNum 0, JNum 0]
         (Some [2, 0, 1]) (Array [JNum 7, JNum 8, JNum 9]) (Single (JNum 1))
   = (Inr (),
      m\<lparr>vertices := Some
           [Vertex (JNum 30) (JNum 31) (JNum 0) (JNum 0) (JNum 0) (JNum 7) (JNum 1),
            Vertex (JNum 10) (JNum 11) (JNum 0) (JNum 0) (JNum 1) (JNum 8) (JNum 1),
            Vertex (JNum 20) (JNum 21) (JNum 0) (JNum 1) (JNum 1) (JNum 9) (JNum 1)],
         faces := Some
           [Face (Some (Vertex (JNum 30) (JNum 31) (JNum 0) (JNum 0) (JNum 0) (JNum 7) (JNum 1)))
                 (Some (Vertex (JNum 10) (JNum 11) (JNum 0) (JNum 0) (JNum 1) (JNum 8) (JNum 1)))
                 (Some (Vertex (JNum 20) (JNum 21) (JNum 0) (JNum 1) (JNum 1) (JNum 9) (JNum 1)))]\<rparr>)"
  by (simp add: addVertices_def Let_def makeFaces.simps js_get_def obj_get_def)

text \<open>
  C2: \<^verbatim>\<open>addVertices\<close> should write the vertices it emits into the packed buffer and
  increase the vertex count by their number. It never writes to the buffer and never
  changes the vertex count. It pushes to \<^verbatim>\<open>this.vertices\<close> and \<^verbatim>\<open>this.faces\<close>, which a
  constructed Model does not have: there both examples of the claim throw a \<^verbatim>\<open>TypeError\<close>
  and leave the vertex count 0 and the face count 0.
\<close>

theorem addVertices_never_appends:
  "vertexCount (snd (addVertices m vs uvs indicies colors alphas)) = vertexCount m
   \<and> vertexViewF32 (snd (addVertices m vs uvs indicies colors alphas)) = vertexViewF32 m
   \<and> addVertices (Model nv nq 3 JUndefined JUndefined JUndefined)
         [JNum 0, JNum 0, JNum 1, JNum 0, JNum 0, JNum 1]
         [JNum 0, JNum 0, JNum 1, JNum 0, JNum 0, JNum 1]
         None (Single JUndefined) (Single JUndefined)
       = (Inl TypeError, Model nv nq 3 JUndefined JUndefined JUndefined)
   \<and> vertexCount (Model nv nq 3 JUndefined JUndefined JUndefined) = 0
   \<and> getFaceCount (Model nv nq 3 JUndefined JUndefined JUndefined) = JNum 0
   \<and> addVertices (Model nv nq 6 JUndefined JUndefined JUndefined)
         [JNum (- 128), JNum 128, JNum 128, JNum 128, JNum (- 128), JNum (- 128), JNum 128, JNum (- 128)]
         [JNum 0, JNum 1, JNum 1, JNum 1, JNum 0, JNum 0, JNum 1, JNum 0]
         (Some [0, 2, 1, 2, 3, 1]) (Single JUndefined) (Single JUndefined)
       = (Inl TypeError, Model nv nq 6 JUndefined JUndefined JUndefined)"
  by (simp add: addVertices_buffer addVertices_undefined vertices_Model vertexCount_Model
      getFaceCount_def)

text \<open>
  C5: when \<^verbatim>\<open>vertices\<close> and \<^verbatim>\<open>uvs\<close> differ in length, \<^verbatim>\<open>addVertices\<close> throws its error
  and leaves the whole state, the vertex count and the buffer included, as it was.
\<close>

theorem addVertices_shape_mismatch:
  assumes "length vs \<noteq> length uvs"
  shows "addVertices m vs uvs indicies colors alphas =
           (Inl (Error ''Mesh - vertices and uv count not equal''), m)"
  using assms by (simp add: addVertices_def Let_def)

theorem addVertices_shape_mismatch_witness:
  "length [JNum 0, JNum 0, JNum 1] \<noteq> length [JNum 0, JNum 0]
   \<and> addVertices (triangle (\<lambda>r. r) 0 0 1 0 0 1) [JNum 0, JNum 0, JNum 1] [JNum 0, JNum 0]
         None (Single JUndefined) (Single JUndefined)
       = (Inl (Error ''Mesh - vertices and uv count not equal''), triangle (\<lambda>r. r) 0 0 1 0 0 1)"
  using addVertices_shape_mismatch [of "[JNum 0, JNum 0, JNum 1]" "[JNum 0, JNum 0]"
      "triangle (\<lambda>r. r) 0 0 1 0 0 1" None "Single JUndefined" "Single JUndefined"]
  by simp

section \<open>The dirty check\<close>

lemma snapshot_isDirty: "snapshot (snd (isDirty m)) = monitored m"
  by (simp add: isDirty_def snapshot_def monitored_def Let_def js_get_js_set)

lemma isDirty_frame: "snd (isDirty m) = m\<lparr>dirtyCache := dirtyCache (snd (isDirty m))\<rparr>"
  by (simp add: isDirty_def Let_def)

lemma monitored_isDirty: "monitored (snd (isDirty m)) = monitored m"
  by (simp add: isDirty_def Let_def monitored_def)

lemma isDirty_value:
  "fst (isDirty m) = list_ex (\<lambda>(c, v). js_sne c v) (zip (snapshot m) (monitored m))"
  by (simp add: isDirty_def Let_def snapshot_def monitored_def)

lemma length_snapshot: "length (snapshot m) = 11" by (simp add: snapshot_def)

lemma length_monitored: "length (monitored m) = 11" by (simp add: monitored_def)

lemma isDirty_in_sync:
  assumes "snapshot m = monitored m" and "JNaN \<notin> set (monitored m)"
  shows "\<not> fst (isDirty m)"
  using assms differ_iff [of "monitored m" "monitored m"] by (simp add: isDirty_value)

lemma matrices_isDirty:
  "transformMatrix (snd (isDirty m)) = transformMatrix m"
  "normalMatrix (snd (isDirty m)) = normalMatrix m"
  "rotation (snd (isDirty m)) = rotation m"
  "position (snd (isDirty m)) = position m"
  "scale (snd (isDirty m)) = scale m"
  by (simp_all add: isDirty_def Let_def)

lemma snapshot_cong: "dirtyCache m' = dirtyCache m \<Longrightarrow> snapshot m' = snapshot m"
  by (simp add: snapshot_def)

lemma monitored_set_x:
  "monitored (set_x m a) = (monitored m)[0 := a]"
  by (simp add: monitored_def set_x_def)

lemma dirtyCache_set_x: "dirtyCache (set_x m a) = dirtyCache m"
  by (simp add: set_x_def)

lemma isDirty_if_differ: "snapshot m \<noteq> monitored m \<Longrightarrow> fst (isDirty m)"
  by (simp add: isDirty_value differ_if length_snapshot length_monitored)

lemma snapshot_Model:
  "snapshot (Model nv nq n x y z) =
     [default0 x, default0 y, default0 z,
      JNum 0, JNum 0, JNum 0, JNum 1, JNum 1, JNum 1, JNum 1, JNum 0]"
  by (simp add: snapshot_def Model_def Let_def js_get_def)

lemma monitored_Model:
  "monitored (Model nv nq n x y z) =
     [vec_x (nv (default0 x) (default0 y) (default0 z)),
      vec_y (nv (default0 x) (default0 y) (default0 z)),
      vec_z (nv (default0 x) (default0 y) (default0 z)),
      quat_x nq, quat_y nq, quat_z nq, quat_w nq,
      vec_x (nv (JNum 1) (JNum 1) (JNum 1)),
      vec_y (nv (JNum 1) (JNum 1) (JNum 1)),
      vec_z (nv (JNum 1) (JNum 1) (JNum 1)),
      JNum 0]"
  by (simp add: monitored_def Model_def Let_def)

lemma fields_Model:
  "transformMatrix (Model nv nq n x y z) = Matrix4_new"
  "normalMatrix (Model nv nq n x y z) = Matrix4_new"
  "rotation (Model nv nq n x y z) = nq"
  "position (Model nv nq n x y z) = nv (default0 x) (default0 y) (default0 z)"
  "scale (Model nv nq n x y z) = nv (JNum 1) (JNum 1) (JNum 1)"
  by (simp_all add: Model_def Let_def)

lemma snapshot_Model_or_zero:
  "snapshot (Model_or_zero n x y z) =
     [default0 x, default0 y, default0 z,
      JNum 0, JNum 0, JNum 0, JNum 1, JNum 1, JNum 1, JNum 1, JNum 0]"
  by (simp add: Model_or_zero_def snapshot_Model)

lemma monitored_Model_or_zero:
  "monitored (Model_or_zero n x y z) =
     [or_zero (default0 x), or_zero (default0 y), or_zero (default0 z),
      JNum 0, JNum 0, JNum 0, JNum 0, JNum 1, JNum 1, JNum 1, JNum 0]"
  by (simp add: Model_or_zero_def monitored_Model Vector3_or_zero_def vec3_def
      Quaternion_zero_def)

lemma fields_Model_or_zero:
  "transformMatrix (Model_or_zero n x y z) = Matrix4_new"
  "normalMatrix (Model_or_zero n x y z) = Matrix4_new"
  "rotation (Model_or_zero n x y z) = Quaternion_zero"
  "position (Model_or_zero n x y z) =
     vec3 (or_zero (default0 x)) (or_zero (default0 y)) (or_zero (default0 z))"
  "scale (Model_or_zero n x y z) = vec3 (JNum 1) (JNum 1) (JNum 1)"
  by (simp_all add: Model_or_zero_def fields_Model Vector3_or_zero_def)

text \<open>
  C3, as amended: \<^verbatim>\<open>isDirty()\<close> returns true exactly when a monitored value is strictly
  unequal (\<^verbatim>\<open>!==\<close>) to its slot of the snapshot, and every call overwrites the snapshot
  with the monitored values and changes nothing else. So a check returns true whenever the
  monitored values differ from the snapshot, in particular after a mutation that changes a
  monitored value since the last check. For monitored values without \<^verbatim>\<open>NaN\<close> it returns
  true only then, and a second check that follows immediately returns false.
\<close>

theorem isDirty_compare_and_overwrite:
  "fst (isDirty m) = list_ex (\<lambda>(c, v). js_sne c v) (zip (snapshot m) (monitored m))
   \<and> snapshot (snd (isDirty m)) = monitored m
   \<and> snd (isDirty m) = m\<lparr>dirtyCache := dirtyCache (snd (isDirty m))\<rparr>
   \<and> monitored (snd (isDirty m)) = monitored m
   \<and> (snapshot m \<noteq> monitored m \<longrightarrow> fst (isDirty m))
   \<and> (JNaN \<notin> set (monitored m) \<longrightarrow> fst (isDirty m) = (snapshot m \<noteq> monitored m))
   \<and> (dirtyCache m' = dirtyCache (snd (isDirty m)) \<and> monitored m' \<noteq> monitored m
        \<longrightarrow> fst (isDirty m'))
   \<and> (JNaN \<notin> set (monitored m) \<longrightarrow> \<not> fst (isDirty (snd (isDirty m))))"
proof (intro conjI impI)
  show "fst (isDirty m) = list_ex (\<lambda>(c, v). js_sne c v) (zip (snapshot m) (monitored m))"
    by (rule isDirty_value)
  show "snapshot (snd (isDirty m)) = monitored m" by (rule snapshot_isDirty)
  show "snd (isDirty m) = m\<lparr>dirtyCache := dirtyCache (snd (isDirty m))\<rparr>"
    by (rule isDirty_frame)
  show "monitored (snd (isDirty m)) = monitored m" by (rule monitored_isDirty)
  show "fst (isDirty m)" if "snapshot m \<noteq> monitored m"
    using that by (simp add: isDirty_value differ_if length_snapshot length_monitored)
  show "fst (isDirty m) = (snapshot m \<noteq> monitored m)" if "JNaN \<notin> set (monitored m)"
    using that by (simp add: isDirty_value differ_iff length_snapshot length_monitored)
  show "fst (isDirty m')"
    if "dirtyCache m' = dirtyCache (snd (isDirty m)) \<and> monitored m' \<noteq> monitored m"
  proof -
    from that have "snapshot m' = monitored m"
      using snapshot_cong [of m' "snd (isDirty m)"] by (simp add: snapshot_isDirty)
    moreover from that have "monitored m \<noteq> monitored m'" by auto
    ultimately show ?thesis
      by (simp add: isDirty_value differ_if length_monitored)
  qed
  show "\<not> fst (isDirty (snd (isDirty m)))" if "JNaN \<notin> set (monitored m)"
    using that by (simp add: isDirty_in_sync snapshot_isDirty monitored_isDirty)
qed

theorem isDirty_compare_and_overwrite_witness:
  "(let m = Model_or_zero 2 JUndefined JUndefined JUndefined;
        m' = set_x (snd (isDirty m)) (JNum 5)
    in JNaN \<notin> set (monitored m)
       \<and> snapshot m \<noteq> monitored m \<and> fst (isDirty m)
       \<and> snapshot (snd (isDirty m)) = monitored m
       \<and> \<not> fst (isDirty (snd (isDirty m)))
       \<and> dirtyCache m' = dirtyCache (snd (isDirty m)) \<and> monitored m' \<noteq> monitored m
       \<and> fst (isDirty m')
       \<and> JNaN \<notin> set (monitored m') \<and> snapshot m' \<noteq> monitored m'
       \<and> \<not> fst (isDirty (snd (isDirty m'))))"
  using isDirty_compare_and_overwrite [of "Model_or_zero 2 JUndefined JUndefined JUndefined"
      "set_x (snd (isDirty (Model_or_zero 2 JUndefined JUndefined JUndefined))) (JNum 5)"]
    isDirty_compare_and_overwrite [of
      "set_x (snd (isDirty (Model_or_zero 2 JUndefined JUndefined JUndefined))) (JNum 5)"
      "Model_or_zero 2 JUndefined JUndefined JUndefined"]
  by (simp add: Let_def monitored_set_x dirtyCache_set_x monitored_isDirty
      monitored_Model_or_zero snapshot_Model_or_zero snapshot_cong [OF dirtyCache_set_x]
      snapshot_isDirty default0_def)

text \<open>
  The claim as stated fails for a monitored value that is \<^verbatim>\<open>NaN\<close>: after \<^verbatim>\<open>x = NaN\<close> and a
  dirty check, the snapshot holds the monitored values, and the check that follows
  immediately returns true again.
\<close>

theorem isDirty_compare_and_overwrite_counterexample:
  "snapshot (snd (isDirty (set_x (Model_or_zero 2 JUndefined JUndefined JUndefined) JNaN)))
     = monitored (snd (isDirty (set_x (Model_or_zero 2 JUndefined JUndefined JUndefined) JNaN)))
   \<and> fst (isDirty (snd (isDirty (set_x (Model_or_zero 2 JUndefined JUndefined JUndefined) JNaN))))"
  by (simp add: isDirty_value snapshot_isDirty monitored_isDirty monitored_set_x
      monitored_Model_or_zero)

section \<open>The per-tick update\<close>

lemma preUpdate_clean: "\<not> fst (isDirty m) \<Longrightarrow> preUpdate m t d = snd (isDirty m)"
  by (cases "isDirty m") (simp add: preUpdate_def)

lemma preUpdate_dirty:
  assumes "fst (isDirty m)"
  shows "transformMatrix (preUpdate m t d) =
           Matrix4_scale
             (Matrix4_fromRotationTranslation (transformMatrix m) (rotation m) (position m))
             (scale m)"
    and "normalMatrix (preUpdate m t d) =
           Matrix4_transpose
             (Matrix4_invert (Matrix4_copy (normalMatrix m) (transformMatrix (preUpdate m t d))))"
proof -
  obtain b m' where r: "isDirty m = (b, m')" by (cases "isDirty m")
  with assms have b: "b" by simp
  from r have m': "m' = snd (isDirty m)" by simp
  show "transformMatrix (preUpdate m t d) =
           Matrix4_scale
             (Matrix4_fromRotationTranslation (transformMatrix m) (rotation m) (position m))
             (scale m)"
    by (simp add: preUpdate_def r b Let_def) (simp add: m' matrices_isDirty)
  then show "normalMatrix (preUpdate m t d) =
           Matrix4_transpose
             (Matrix4_invert (Matrix4_copy (normalMatrix m) (transformMatrix (preUpdate m t d))))"
    by (simp add: preUpdate_def r b Let_def) (simp add: m' matrices_isDirty)
qed

text \<open>
  C6, as amended: when the dirty check reports no change, as it does when the monitored
  values are those of the snapshot and none of them is \<^verbatim>\<open>NaN\<close>, \<^verbatim>\<open>preUpdate\<close> leaves
  \<^verbatim>\<open>transformMatrix\<close> and \<^verbatim>\<open>normalMatrix\<close> as they are. When it reports a change,
  \<^verbatim>\<open>transformMatrix\<close> becomes the rotation and translation, then scaled, and
  \<^verbatim>\<open>normalMatrix\<close> becomes the transpose of the inverse of a copy of that matrix.
\<close>

theorem preUpdate_recompute:
  "(\<not> fst (isDirty m) \<longrightarrow>
      transformMatrix (preUpdate m t d) = transformMatrix m \<and>
      normalMatrix (preUpdate m t d) = normalMatrix m)
   \<and> (snapshot m = monitored m \<and> JNaN \<notin> set (monitored m) \<longrightarrow>
      transformMatrix (preUpdate m t d) = transformMatrix m \<and>
      normalMatrix (preUpdate m t d) = normalMatrix m)
   \<and> (fst (isDirty m) \<longrightarrow>
      transformMatrix (preUpdate m t d) =
        Matrix4_scale
          (Matrix4_fromRotationTranslation (transformMatrix m) (rotation m) (position m))
          (scale m) \<and>
      normalMatrix (preUpdate m t d) =
        Matrix4_transpose (Matrix4_invert (transformMatrix (preUpdate m t d))))"
proof (intro conjI impI)
  assume "\<not> fst (isDirty m)"
  then show "transformMatrix (preUpdate m t d) = transformMatrix m"
    and "normalMatrix (preUpdate m t d) = normalMatrix m"
    by (simp_all add: preUpdate_clean matrices_isDirty)
next
  assume "snapshot m = monitored m \<and> JNaN \<notin> set (monitored m)"
  then have "\<not> fst (isDirty m)" by (simp add: isDirty_in_sync)
  then show "transformMatrix (preUpdate m t d) = transformMatrix m"
    and "normalMatrix (preUpdate m t d) = normalMatrix m"
    by (simp_all add: preUpdate_clean matrices_isDirty)
next
  assume "fst (isDirty m)"
  then show "transformMatrix (preUpdate m t d) =
        Matrix4_scale
          (Matrix4_fromRotationTranslation (transformMatrix m) (rotation m) (position m))
          (scale m)"
    and "normalMatrix (preUpdate m t d) =
        Matrix4_transpose (Matrix4_invert (transformMatrix (preUpdate m t d)))"
    using preUpdate_dirty [of m t d] by (simp_all add: Matrix4_copy_def)
qed

theorem preUpdate_recompute_witness:
  "\<not> fst (isDirty (snd (isDirty (Model_or_zero 2 (JNum 1) (JNum 2) (JNum 3)))))
   \<and> snapshot (snd (isDirty (Model_or_zero 2 (JNum 1) (JNum 2) (JNum 3))))
       = monitored (snd (isDirty (Model_or_zero 2 (JNum 1) (JNum 2) (JNum 3))))
   \<and> JNaN \<notin> set (monitored (snd (isDirty (Model_or_zero 2 (JNum 1) (JNum 2) (JNum 3)))))
   \<and> transformMatrix
         (preUpdate (snd (isDirty (Model_or_zero 2 (JNum 1) (JNum 2) (JNum 3)))) (JNum 0) (JNum 16))
       = Matrix4_new
   \<and> normalMatrix
         (preUpdate (snd (isDirty (Model_or_zero 2 (JNum 1) (JNum 2) (JNum 3)))) (JNum 0) (JNum 16))
       = Matrix4_new
   \<and> fst (isDirty (Model_or_zero 2 (JNum 1) (JNum 2) (JNum 3)))
   \<and> transformMatrix (preUpdate (Model_or_zero 2 (JNum 1) (JNum 2) (JNum 3)) (JNum 0) (JNum 16))
       = translation_matrix 1 2 3
   \<and> normalMatrix (preUpdate (Model_or_zero 2 (JNum 1) (JNum 2) (JNum 3)) (JNum 0) (JNum 16))
       = Matrix4_transpose (Matrix4_invert (translation_matrix 1 2 3))"
proof -
  let ?m' = "Model_or_zero 2 (JNum 1) (JNum 2) (JNum 3)"
  let ?m = "snd (isDirty ?m')"
  have n: "JNaN \<notin> set (monitored ?m)"
    by (simp add: monitored_isDirty monitored_Model_or_zero default0_def)
  have s: "snapshot ?m = monitored ?m"
    by (simp add: snapshot_isDirty monitored_isDirty)
  have c: "\<not> fst (isDirty ?m)" using s n by (rule isDirty_in_sync)
  have d: "fst (isDirty ?m')"
    by (rule isDirty_if_differ)
      (simp add: snapshot_Model_or_zero monitored_Model_or_zero default0_def)
  show ?thesis
    using preUpdate_recompute [of ?m "JNum 0" "JNum 16"]
      preUpdate_recompute [of ?m' "JNum 0" "JNum 16"] c d n s
    by (simp add: matrices_isDirty fields_Model_or_zero default0_def
        Matrix4_fromRotationTranslation_def Quaternion_zero_def vec3_def translation_matrix_def
        Let_def js_arith)
qed

text \<open>
  The claim as stated fails for a monitored value that is \<^verbatim>\<open>NaN\<close>: after \<^verbatim>\<open>x = NaN\<close> and a
  dirty check nothing has changed since that check, and yet \<^verbatim>\<open>preUpdate\<close> rebuilds the
  matrices.
\<close>

theorem preUpdate_recompute_counterexample:
  "snapshot (snd (isDirty (set_x (Model_or_zero 2 JUndefined JUndefined JUndefined) JNaN)))
     = monitored (snd (isDirty (set_x (Model_or_zero 2 JUndefined JUndefined JUndefined) JNaN)))
   \<and> transformMatrix
        (preUpdate (snd (isDirty (set_x (Model_or_zero 2 JUndefined JUndefined JUndefined) JNaN)))
           (JNum 0) (JNum 16))
       \<noteq> transformMatrix
           (snd (isDirty (set_x (Model_or_zero 2 JUndefined JUndefined JUndefined) JNaN)))"
proof -
  let ?m = "snd (isDirty (set_x (Model_or_zero 2 JUndefined JUndefined JUndefined) JNaN))"
  have s: "snapshot ?m = monitored ?m"
    by (simp add: snapshot_isDirty monitored_isDirty)
  have d: "fst (isDirty ?m)"
    by (simp add: isDirty_value snapshot_isDirty monitored_isDirty monitored_set_x
        monitored_Model_or_zero)
  have "transformMatrix (preUpdate ?m (JNum 0) (JNum 16)) \<noteq> transformMatrix ?m"
    using preUpdate_dirty(1) [OF d, of "JNum 0" "JNum 16"]
    by (simp add: matrices_isDirty set_x_def fields_Model_or_zero default0_def vec3_def
        Matrix4_fromRotationTranslation_def Quaternion_zero_def Matrix4_new_def Let_def js_arith)
  with s show ?thesis by simp
qed

subsection \<open>The matrices of a translation\<close>

lemma Matrix4_fromRotationTranslation_identity:
  "Matrix4_fromRotationTranslation this Quaternion_identity (vec3 (JNum tx) (JNum ty) (JNum tz))
     = translation_matrix tx ty tz"
  by (simp add: Matrix4_fromRotationTranslation_def Quaternion_identity_def vec3_def
      translation_matrix_def Let_def js_arith)

lemma Matrix4_fromRotationTranslation_zero:
  "Matrix4_fromRotationTranslation this Quaternion_zero (vec3 (JNum tx) (JNum ty) (JNum tz))
     = translation_matrix tx ty tz"
  by (simp add: Matrix4_fromRotationTranslation_def Quaternion_zero_def vec3_def
      translation_matrix_def Let_def js_arith)

lemma Matrix4_scale_concat:
  "Matrix4_scale
     (Matrix4 (JNum a00) (JNum a01) (JNum a02) (JNum a03) (JNum a10) (JNum a11) (JNum a12) (JNum a13)
              (JNum a20) (JNum a21) (JNum a22) (JNum a23) (JNum a30) (JNum a31) (JNum a32) (JNum a33))
     (vec3 (JNum sx) (JNum sy) (JNum sz))
   = Matrix4_multiply
     (Matrix4 (JNum a00) (JNum a01) (JNum a02) (JNum a03) (JNum a10) (JNum a11) (JNum a12) (JNum a13)
              (JNum a20) (JNum a21) (JNum a22) (JNum a23) (JNum a30) (JNum a31) (JNum a32) (JNum a33))
     (scale_matrix sx sy sz)"
  by (simp add: vec3_def scale_matrix_def js_arith mult.commute)

lemma Matrix4_scale_one:
  "Matrix4_scale (translation_matrix tx ty tz) (vec3 (JNum 1) (JNum 1) (JNum 1))
     = translation_matrix tx ty tz"
  by (simp add: translation_matrix_def vec3_def Let_def js_arith)

lemma Matrix4_invert_translation:
  "Matrix4_invert (translation_matrix tx ty tz) = translation_matrix (- tx) (- ty) (- tz)"
  by (simp add: Matrix4_invert_def translation_matrix_def Let_def js_arith)

lemma translation_inverse:
  "Matrix4_multiply (translation_matrix (- tx) (- ty) (- tz)) (translation_matrix tx ty tz)
     = Matrix4_new"
  "Matrix4_multiply (translation_matrix tx ty tz) (translation_matrix (- tx) (- ty) (- tz))
     = Matrix4_new"
  by (simp_all add: translation_matrix_def Matrix4_new_def js_arith)

text \<open>\<open>Matrix4_invert\<close> computes the inverse of a matrix of numbers that has one.\<close>

lemma inverse_entry:
  fixes d :: real
  assumes "d \<noteq> 0" and "a0 * c0 + a1 * c1 + a2 * c2 + a3 * c3 = e * d"
  shows "a0 * (c0 * (1 / d)) + a1 * (c1 * (1 / d)) + a2 * (c2 * (1 / d)) + a3 * (c3 * (1 / d)) = e"
proof -
  have "a0 * (c0 * (1 / d)) + a1 * (c1 * (1 / d)) + a2 * (c2 * (1 / d)) + a3 * (c3 * (1 / d))
        = (a0 * c0 + a1 * c1 + a2 * c2 + a3 * c3) / d"
    by (simp add: add_divide_distrib)
  also have "\<dots> = e" using assms by simp
  finally show ?thesis .
qed

lemma Matrix4_invert_inverse:
  assumes "det4 a00 a01 a02 a03 a10 a11 a12 a13 a20 a21 a22 a23 a30 a31 a32 a33 \<noteq> 0"
  shows "Matrix4_multiply
     (Matrix4_invert
       (Matrix4 (JNum a00) (JNum a01) (JNum a02) (JNum a03) (JNum a10) (JNum a11) (JNum a12) (JNum a13)
              (JNum a20) (JNum a21) (JNum a22) (JNum a23) (JNum a30) (JNum a31) (JNum a32) (JNum a33)))
     (Matrix4 (JNum a00) (JNum a01) (JNum a02) (JNum a03) (JNum a10) (JNum a11) (JNum a12) (JNum a13)
              (JNum a20) (JNum a21) (JNum a22) (JNum a23) (JNum a30) (JNum a31) (JNum a32) (JNum a33))
   = Matrix4_new"
  using assms unfolding det4_def
  apply (simp only: Matrix4_invert_def Let_def Matrix4.case plus_jsval_def minus_jsval_def
      times_jsval_def js_mul.simps js_sub.simps js_add.simps jsval.case if_False
      Matrix4_multiply.simps Matrix4_new_def Matrix4.inject jsval.inject)
  apply (intro conjI)
  apply (rule inverse_entry, assumption, algebra)+
  done

lemma preUpdate_pure_translation:
  assumes "position m = vec3 (JNum tx) (JNum ty) (JNum tz)"
    and "rotation m = Quaternion_identity \<or> rotation m = Quaternion_zero"
    and "scale m = vec3 (JNum 1) (JNum 1) (JNum 1)"
    and "fst (isDirty m)"
  shows "transformMatrix (preUpdate m t d) = translation_matrix tx ty tz"
    and "normalMatrix (preUpdate m t d) =
           Matrix4_transpose (translation_matrix (- tx) (- ty) (- tz))"
proof -
  show t: "transformMatrix (preUpdate m t d) = translation_matrix tx ty tz"
    using preUpdate_dirty(1) [OF assms(4), of t d] assms(2)
    by (auto simp: assms(1,3) Matrix4_fromRotationTranslation_identity
        Matrix4_fromRotationTranslation_zero Matrix4_scale_one)
  show "normalMatrix (preUpdate m t d) =
           Matrix4_transpose (translation_matrix (- tx) (- ty) (- tz))"
    using preUpdate_dirty(2) [OF assms(4), of t d]
    by (simp add: t Matrix4_copy_def Matrix4_invert_translation)
qed

subsection \<open>The first update of a new Model\<close>








subsection \<open>A Model moved to (1,2,3)\<close>

text \<open>
  The state of the example: a new Model whose rotation has been set to the identity
  (0,0,0,1), and whose position has then been set to (1,2,3) with the setters \<^verbatim>\<open>x\<close>, \<^verbatim>\<open>y\<close>
  and \<^verbatim>\<open>z\<close>.
\<close>

lemma moved_Model:
  "position (set_z (set_y (set_x
      ((Model_or_zero n JUndefined JUndefined JUndefined)\<lparr>rotation := Quaternion_identity\<rparr>)
      (JNum a)) (JNum b)) (JNum c))
     = vec3 (JNum a) (JNum b) (JNum c)"
  "rotation (set_z (set_y (set_x
      ((Model_or_zero n JUndefined JUndefined JUndefined)\<lparr>rotation := Quaternion_identity\<rparr>)
      (JNum a)) (JNum b)) (JNum c))
     = Quaternion_identity"
  "scale (set_z (set_y (set_x
      ((Model_or_zero n JUndefined JUndefined JUndefined)\<lparr>rotation := Quaternion_identity\<rparr>)
      (JNum a)) (JNum b)) (JNum c))
     = vec3 (JNum 1) (JNum 1) (JNum 1)"
  by (simp_all add: set_x_def set_y_def set_z_def fields_Model_or_zero vec3_def)

lemma isDirty_moved:
  "fst (isDirty (set_z (set_y (set_x
      ((Model_or_zero n JUndefined JUndefined JUndefined)\<lparr>rotation := Quaternion_identity\<rparr>)
      (JNum 1)) (JNum 2)) (JNum 3)))"
  by (rule isDirty_if_differ)
    (simp add: snapshot_def monitored_def set_x_def set_y_def set_z_def Model_or_zero_def
      Model_def Let_def js_get_def default0_def)

text \<open>
  C7, as amended: for a Model at the position (1,2,3) with the identity rotation and the
  scale (1,1,1), the recompute yields the translation by (1,2,3) as \<^verbatim>\<open>transformMatrix\<close>,
  and as \<^verbatim>\<open>normalMatrix\<close> the transpose of the translation by (-1,-2,-3): its rotation
  part is that of the identity, its entries 3, 7 and 11 are -1, -2 and -3.
\<close>

theorem preUpdate_translation:
  assumes "position m = vec3 (JNum 1) (JNum 2) (JNum 3)"
    and "rotation m = Quaternion_identity"
    and "scale m = vec3 (JNum 1) (JNum 1) (JNum 1)"
    and "fst (isDirty m)"
  shows "transformMatrix (preUpdate m t d) = translation_matrix 1 2 3
         \<and> normalMatrix (preUpdate m t d) = Matrix4_transpose (translation_matrix (- 1) (- 2) (- 3))
         \<and> normalMatrix (preUpdate m t d) =
             Matrix4 (JNum 1) (JNum 0) (JNum 0) (JNum (- 1))
                     (JNum 0) (JNum 1) (JNum 0) (JNum (- 2))
                     (JNum 0) (JNum 0) (JNum 1) (JNum (- 3))
                     (JNum 0) (JNum 0) (JNum 0) (JNum 1)
         \<and> upper3x3 (normalMatrix (preUpdate m t d)) = upper3x3 Matrix4_new"
  using preUpdate_pure_translation [OF assms(1) disjI1 [OF assms(2)] assms(3,4), of t d]
  by (simp add: translation_matrix_def Matrix4_new_def)

theorem preUpdate_translation_witness:
  "(let m = set_z (set_y (set_x
       ((Model_or_zero 2 JUndefined JUndefined JUndefined)\<lparr>rotation := Quaternion_identity\<rparr>)
       (JNum 1)) (JNum 2)) (JNum 3)
    in position m = vec3 (JNum 1) (JNum 2) (JNum 3)
       \<and> rotation m = Quaternion_identity
       \<and> scale m = vec3 (JNum 1) (JNum 1) (JNum 1)
       \<and> fst (isDirty m)
       \<and> transformMatrix (preUpdate m (JNum 0) (JNum 16)) = translation_matrix 1 2 3
       \<and> normalMatrix (preUpdate m (JNum 0) (JNum 16)) =
             Matrix4 (JNum 1) (JNum 0) (JNum 0) (JNum (- 1))
                     (JNum 0) (JNum 1) (JNum 0) (JNum (- 2))
                     (JNum 0) (JNum 0) (JNum 1) (JNum (- 3))
                     (JNum 0) (JNum 0) (JNum 0) (JNum 1))"
  using preUpdate_translation [OF moved_Model [of 2 1 2 3] isDirty_moved [of 2],
      of "JNum 0" "JNum 16"]
    moved_Model [of 2 1 2 3] isDirty_moved [of 2]
  by (simp add: Let_def translation_matrix_def)

text \<open>The claim as stated fails: this \<^verbatim>\<open>normalMatrix\<close> is not the identity.\<close>

theorem preUpdate_translation_counterexample:
  "normalMatrix
     (preUpdate
        (set_z (set_y (set_x
           ((Model_or_zero 2 JUndefined JUndefined JUndefined)\<lparr>rotation := Quaternion_identity\<rparr>)
           (JNum 1)) (JNum 2)) (JNum 3))
        (JNum 0) (JNum 16))
   \<noteq> Matrix4_new"
  using preUpdate_pure_translation(2)
      [OF moved_Model(1) [of 2 1 2 3] disjI1 [OF moved_Model(2) [of 2 1 2 3]]
          moved_Model(3) [of 2 1 2 3] isDirty_moved [of 2], of "JNum 0" "JNum 16"]
  by (simp add: translation_matrix_def Matrix4_new_def)

end
